theory Spec2Isabelle
  imports Complex_Main "HOL-Library.Product_Lexorder"
begin

section \<open>Library values the engine relies on\<close>

text \<open>
  The engine (\<^verbatim>\<open>engine.py\<close>) keeps six pandas tables in memory and writes each to a
  CSV file. Exceptions are values: every operation returns \<open>Inl e\<close> when the Python
  raises \<open>e\<close> to its caller and \<open>Inr s\<close> with the new state when it returns. Every
  \<^verbatim>\<open>raise\<close> of the engine comes before its first assignment to \<^verbatim>\<open>self.dataframes\<close> and its
  first write, so a call that raises leaves the tracker it was given.
\<close>

datatype exn = ValueError | TypeError | OverflowError | AttributeError

text \<open>
  An argument that the code passes to \<^verbatim>\<open>int(...)\<close>: \<^verbatim>\<open>None\<close>, an integer, a float (a finite
  number, an infinity or NaN) or a text.
\<close>

datatype pyval = PyNone | PyInt int | PyFloat real | PyPosInf | PyNegInf | PyNaN | PyStr string

text \<open>A calendar date: the date part of a pandas \<^verbatim>\<open>Timestamp\<close>.\<close>

record date =
  year :: int
  month :: int
  day :: int

text \<open>The \<^verbatim>\<open>date\<close> argument of \<^verbatim>\<open>log_score\<close>: a date object or a text.\<close>

datatype date_arg = DateValue date | DateText string

text \<open>
  A cell of the \<^verbatim>\<open>Date\<close> column of the daily scores: the text that \<^verbatim>\<open>log_score\<close> stored (or that
  the CSV file held) or, once \<^verbatim>\<open>calculate_all_averages\<close> has converted the column, a
  timestamp. Every row carries a date: \<^verbatim>\<open>log_score\<close> always stores one.
\<close>

datatype date_cell = Text string | Stamp date

text \<open>
  What Python and pandas do with texts and dates is not code of the engine. These library
  functions are parameters of the model, so that nothing is assumed about them:
  \<^item> \<open>int_of_text t\<close> is \<open>Some i\<close> when \<^verbatim>\<open>int(t)\<close> returns \<open>i\<close> for the text \<open>t\<close>, \<open>None\<close> when it
    raises \<^verbatim>\<open>ValueError\<close>;
  \<^item> \<open>strip\<close> and \<open>lower\<close> are \<^verbatim>\<open>str.strip\<close> and \<^verbatim>\<open>str.lower\<close>;
  \<^item> \<open>to_datetime a\<close> is \<open>Some d\<close> when \<^verbatim>\<open>pd.to_datetime(a)\<close> of one value is a timestamp on the
    date \<open>d\<close>, \<open>None\<close> when the value cannot be read as a date;
  \<^item> \<open>strftime d\<close> is the text of \<^verbatim>\<open>strftime("%Y-%m-%d")\<close> for a timestamp on the date \<open>d\<close>;
  \<^item> \<open>to_datetime_column c\<close> is the result of \<^verbatim>\<open>pd.to_datetime\<close> on a whole column of cells
    that are not all timestamps: \<open>Some f\<close> when the column converts, \<open>f i\<close> being the date of
    the timestamp of row \<open>i\<close>, and \<open>None\<close> when pandas raises (it reads the column with one
    format, so a column may fail although each of its cells alone would be read).
\<close>

record library =
  int_of_text :: "string \<Rightarrow> int option"
  strip :: "string \<Rightarrow> string"
  lower :: "string \<Rightarrow> string"
  to_datetime :: "date_arg \<Rightarrow> date option"
  strftime :: "date \<Rightarrow> string"
  to_datetime_column :: "date_cell list \<Rightarrow> (nat \<Rightarrow> date) option"

text \<open>\<^verbatim>\<open>int\<close> of a finite float drops the fraction (rounds towards zero).\<close>

definition py_trunc :: "real \<Rightarrow> int" where
  "py_trunc x = (if x < 0 then - \<lfloor>- x\<rfloor> else \<lfloor>x\<rfloor>)"

fun py_int :: "library \<Rightarrow> pyval \<Rightarrow> exn + int" where
  "py_int L PyNone = Inl TypeError"
| "py_int L (PyInt i) = Inr i"
| "py_int L (PyFloat x) = Inr (py_trunc x)"
| "py_int L PyPosInf = Inl OverflowError"
| "py_int L PyNegInf = Inl OverflowError"
| "py_int L PyNaN = Inl ValueError"
| "py_int L (PyStr t) = (case int_of_text L t of None \<Rightarrow> Inl ValueError | Some i \<Rightarrow> Inr i)"

definition py_to_datetime :: "library \<Rightarrow> date_arg \<Rightarrow> exn + date" where
  "py_to_datetime L a = (case to_datetime L a of None \<Rightarrow> Inl ValueError | Some d \<Rightarrow> Inr d)"

subsection \<open>The ISO calendar of a date (\<^verbatim>\<open>.dt.isocalendar()\<close>)\<close>

text \<open>
  The proleptic Gregorian ordinal of a date and its ISO year, week and weekday, computed
  as Python's \<^verbatim>\<open>datetime\<close> does: week 1 starts on the Monday nearest to 1 January.
\<close>

definition is_leap :: "int \<Rightarrow> bool" where
  "is_leap y = (y mod 4 = 0 \<and> (y mod 100 \<noteq> 0 \<or> y mod 400 = 0))"

definition days_before_year :: "int \<Rightarrow> int" where
  "days_before_year y = (let p = y - 1 in p * 365 + p div 4 - p div 100 + p div 400)"

definition days_in_month :: "int \<Rightarrow> int \<Rightarrow> int" where
  "days_in_month y m =
     (if m = 2 then (if is_leap y then 29 else 28)
      else if m \<in> {4, 6, 9, 11} then 30 else 31)"

definition days_before_month :: "int \<Rightarrow> int \<Rightarrow> int" where
  "days_before_month y m = sum_list (map (days_in_month y) [1 .. m - 1])"

definition ymd2ord :: "int \<Rightarrow> int \<Rightarrow> int \<Rightarrow> int" where
  "ymd2ord y m d = days_before_year y + days_before_month y m + d"

definition isoweek1monday :: "int \<Rightarrow> int" where
  "isoweek1monday y =
     (let firstday = ymd2ord y 1 1;
          firstweekday = (firstday + 6) mod 7;
          week1monday = firstday - firstweekday
      in if firstweekday > 3 then week1monday + 7 else week1monday)"

definition isocalendar :: "date \<Rightarrow> int \<times> int \<times> int" where
  "isocalendar da =
     (let y = year da;
          week1monday = isoweek1monday y;
          today = ymd2ord (year da) (month da) (day da);
          week = (today - week1monday) div 7;
          wday = (today - week1monday) mod 7
      in if week < 0 then
           (let week1monday' = isoweek1monday (y - 1)
            in (y - 1, (today - week1monday') div 7 + 1, (today - week1monday') mod 7 + 1))
         else if week \<ge> 52 \<and> today \<ge> isoweek1monday (y + 1) then (y + 1, 1, wday + 1)
         else (y, week + 1, wday + 1))"

definition iso_year :: "date \<Rightarrow> int" where
  "iso_year da = fst (isocalendar da)"

definition iso_week :: "date \<Rightarrow> int" where
  "iso_week da = fst (snd (isocalendar da))"

definition valid_date :: "date \<Rightarrow> bool" where
  "valid_date da = (1 \<le> month da \<and> month da \<le> 12 \<and> 1 \<le> day da \<and>
                    day da \<le> days_in_month (year da) (month da))"

definition year_length :: "int \<Rightarrow> int" where
  "year_length y = (if is_leap y then 366 else 365)"

text \<open>Python's \<^verbatim>\<open>date.weekday()\<close>: Monday is 0, Sunday is 6.\<close>

definition weekday :: "date \<Rightarrow> int" where
  "weekday da = (ymd2ord (year da) (month da) (day da) + 6) mod 7"

text \<open>
  The week numbering of ISO 8601, stated on its own: weeks run from Monday to Sunday, a
  week belongs to the calendar year that holds its Thursday, and the weeks of a year are
  numbered from 1. So \<open>Y\<close> and \<open>W\<close> are the ISO week-numbering year and the ISO week of a
  date when the Thursday of the date's week is a day of the calendar year \<open>Y\<close> and is the
  \<open>W\<close>-th Thursday of that year.
\<close>

definition iso8601_week :: "date \<Rightarrow> int \<Rightarrow> int \<Rightarrow> bool" where
  "iso8601_week da Y W =
     (let thursday = ymd2ord (year da) (month da) (day da) - weekday da + 3
      in days_before_year Y < thursday \<and> thursday \<le> days_before_year (Y + 1) \<and>
         W = (thursday - days_before_year Y - 1) div 7 + 1)"

section \<open>The six tables\<close>

text \<open>One record per table row, the fields named after the columns of \<^verbatim>\<open>DATABASE_SCHEMA\<close>.\<close>

record subject =
  SubjectID :: int
  SubjectLabel :: string
  DateCreated :: string

record definition_row =
  DefinitionID :: int
  def_SubjectID :: int
  BehaviorName :: string
  Description :: string

text \<open>
  A daily-score row. \<^verbatim>\<open>Year\<close>, \<^verbatim>\<open>WeekOfYear\<close>, \<^verbatim>\<open>Month\<close> and \<^verbatim>\<open>Half\<close> are the helper columns that
  \<^verbatim>\<open>calculate_all_averages\<close> adds to the table; \<open>None\<close> is a missing cell (the column is
  absent, or the row was appended after the column was added).
\<close>

record score_row =
  LogID :: int
  log_DefinitionID :: int
  Date :: date_cell
  Score :: int
  Notes :: string
  Year :: "int option"
  WeekOfYear :: "int option"
  Month :: "int option"
  Half :: "int option"

text \<open>
  A row of an averages table. \<open>avg_Period\<close> is the column \<^verbatim>\<open>WeekOfYear\<close>, \<^verbatim>\<open>Month\<close> or \<^verbatim>\<open>Half\<close>
  of the weekly, monthly or semi-annual table; \<open>AverageScore\<close> is the mean as an exact
  number.
\<close>

record average_row =
  AverageID :: int
  avg_DefinitionID :: int
  avg_Year :: int
  avg_Period :: int
  AverageScore :: real
  DataPointsCount :: int

record tables =
  subjects :: "subject list"
  definitions :: "definition_row list"
  daily_scores :: "score_row list"
  weekly_averages :: "average_row list"
  monthly_averages :: "average_row list"
  semi_annual_averages :: "average_row list"

text \<open>
  The type pandas gave the \<^verbatim>\<open>SubjectLabel\<close> column in memory. An empty table and a table
  grown by \<^verbatim>\<open>add_subject\<close> hold texts (\<open>ObjectDtype\<close>). When the tracker starts, \<^verbatim>\<open>read_csv\<close>
  guesses the type of each column from the file: a column whose labels all look like
  numbers comes back as numbers (\<open>OtherDtype\<close>), and on such a column the \<^verbatim>\<open>.str\<close> accessor
  raises \<^verbatim>\<open>AttributeError\<close>. The rows keep the label as the file's text.
\<close>

datatype dtype = ObjectDtype | OtherDtype

text \<open>The tracker: the tables in memory (\<^verbatim>\<open>self.dataframes\<close>) and the tables in the CSV files.\<close>

record tracker =
  dataframes :: tables
  files :: tables
  SubjectLabel_dtype :: dtype

datatype df_name =
  Subjects | Definitions | DailyScores | WeeklyAverages | MonthlyAverages | SemiAnnualAverages


section \<open>The repository operations\<close>

definition get_next_id :: "int list \<Rightarrow> int" where
  "get_next_id ids = (if ids = [] then 1 else Max (set ids) + 1)"

fun save_df :: "df_name \<Rightarrow> tracker \<Rightarrow> tracker" where
  "save_df Subjects s = s\<lparr>files := (files s)\<lparr>subjects := subjects (dataframes s)\<rparr>\<rparr>"
| "save_df Definitions s = s\<lparr>files := (files s)\<lparr>definitions := definitions (dataframes s)\<rparr>\<rparr>"
| "save_df DailyScores s = s\<lparr>files := (files s)\<lparr>daily_scores := daily_scores (dataframes s)\<rparr>\<rparr>"
| "save_df WeeklyAverages s =
     s\<lparr>files := (files s)\<lparr>weekly_averages := weekly_averages (dataframes s)\<rparr>\<rparr>"
| "save_df MonthlyAverages s =
     s\<lparr>files := (files s)\<lparr>monthly_averages := monthly_averages (dataframes s)\<rparr>\<rparr>"
| "save_df SemiAnnualAverages s =
     s\<lparr>files := (files s)\<lparr>semi_annual_averages := semi_annual_averages (dataframes s)\<rparr>\<rparr>"

text \<open>
  \<open>now\<close> is the text of \<^verbatim>\<open>datetime.now().strftime("%Y-%m-%d %H:%M:%S")\<close>. The duplicate check
  reads \<^verbatim>\<open>subjects_df['SubjectLabel'].str\<close> first, which raises on a column that is not of
  texts.
\<close>

definition add_subject :: "library \<Rightarrow> string \<Rightarrow> string \<Rightarrow> tracker \<Rightarrow> exn + tracker" where
  "add_subject L now subject_label0 s =
     (let subject_label = strip L subject_label0 in
      if subject_label = [] then Inr s
      else
        let subjects_df = subjects (dataframes s) in
        if SubjectLabel_dtype s \<noteq> ObjectDtype then Inl AttributeError
        else if filter (\<lambda>r. lower L (SubjectLabel r) = lower L subject_label) subjects_df \<noteq> []
        then Inr s
        else
          let new_id = get_next_id (map SubjectID subjects_df);
              new_subject = \<lparr>SubjectID = new_id, SubjectLabel = subject_label, DateCreated = now\<rparr>
          in Inr (save_df Subjects
                   (s\<lparr>dataframes := (dataframes s)\<lparr>subjects := subjects_df @ [new_subject]\<rparr>\<rparr>)))"

text \<open>The handler \<^verbatim>\<open>except (ValueError, TypeError)\<close>.\<close>

definition caught :: "exn \<Rightarrow> bool" where
  "caught e = (e = ValueError \<or> e = TypeError)"

definition add_behavior_definition ::
  "library \<Rightarrow> pyval \<Rightarrow> string \<Rightarrow> string \<Rightarrow> tracker \<Rightarrow> exn + tracker" where
  "add_behavior_definition L subject_id0 behavior_name description s =
     (if behavior_name = [] \<or> strip L behavior_name = [] then Inr s
      else case py_int L subject_id0 of
        Inl e \<Rightarrow> (if caught e then Inr s else Inl e)
      | Inr subject_id \<Rightarrow>
          let subjects_df = subjects (dataframes s) in
          if filter (\<lambda>r. SubjectID r = subject_id) subjects_df = [] then Inr s
          else
            let new_id = get_next_id (map DefinitionID (definitions (dataframes s)));
                new_definition = \<lparr>DefinitionID = new_id, def_SubjectID = subject_id,
                                  BehaviorName = strip L behavior_name,
                                  Description = strip L description\<rparr>
            in Inr (save_df Definitions
                     (s\<lparr>dataframes := (dataframes s)
                         \<lparr>definitions := definitions (dataframes s) @ [new_definition]\<rparr>\<rparr>)))"

text \<open>
  \<^verbatim>\<open>int(definition_id), int(score)\<close> converts the identifier first; the date is parsed
  after every check, outside the \<^verbatim>\<open>try\<close>, so a date that does not parse raises to the
  caller, before the table is touched.
\<close>

definition log_score ::
  "library \<Rightarrow> pyval \<Rightarrow> date_arg \<Rightarrow> pyval \<Rightarrow> string \<Rightarrow> tracker \<Rightarrow> exn + tracker" where
  "log_score L definition_id0 date score0 notes s =
     (case py_int L definition_id0 of
        Inl e \<Rightarrow> (if caught e then Inr s else Inl e)
      | Inr definition_id \<Rightarrow>
     (case py_int L score0 of
        Inl e \<Rightarrow> (if caught e then Inr s else Inl e)
      | Inr score \<Rightarrow>
          if \<not> (1 \<le> score \<and> score \<le> 10) then Inr s
          else if filter (\<lambda>r. DefinitionID r = definition_id) (definitions (dataframes s)) = []
          then Inr s
          else
            let new_id = get_next_id (map LogID (daily_scores (dataframes s))) in
            case py_to_datetime L date of
              Inl e \<Rightarrow> Inl e
            | Inr d \<Rightarrow>
                let new_log_entry = \<lparr>LogID = new_id, log_DefinitionID = definition_id,
                                     Date = Text (strftime L d), Score = score,
                                     Notes = strip L notes,
                                     Year = None, WeekOfYear = None, Month = None, Half = None\<rparr>
                in Inr (save_df DailyScores
                         (s\<lparr>dataframes := (dataframes s)
                             \<lparr>daily_scores := daily_scores (dataframes s) @ [new_log_entry]\<rparr>\<rparr>))))"

section \<open>The aggregation\<close>

text \<open>
  \<^verbatim>\<open>pd.to_datetime(scores_df['Date'])\<close> converts the column as a whole. A column that a run
  has converted holds timestamps only and comes back as it is; any other column is read
  by pandas, which gives one timestamp per row or raises.
\<close>

fun stamps :: "date_cell list \<Rightarrow> date list option" where
  "stamps [] = Some []"
| "stamps (Stamp d # cs) = map_option ((#) d) (stamps cs)"
| "stamps (Text t # cs) = None"

definition column_to_datetime :: "library \<Rightarrow> date_cell list \<Rightarrow> date list option" where
  "column_to_datetime L col =
     (case stamps col of
        Some ds \<Rightarrow> Some ds
      | None \<Rightarrow> map_option (\<lambda>f. map f [0 ..< length col]) (to_datetime_column L col))"

text \<open>The \<^verbatim>\<open>.dt\<close> accessor of a converted cell.\<close>

fun dt :: "date_cell \<Rightarrow> date option" where
  "dt (Stamp d) = Some d"
| "dt (Text t) = None"

definition mean :: "int list \<Rightarrow> real" where
  "mean xs = real_of_int (sum_list xs) / real (length xs)"

text \<open>
  \<^verbatim>\<open>groupby(keys)['Score'].agg(['mean', 'count']).reset_index()\<close>: one row per key that occurs,
  in ascending order of the key (pandas sorts the groups), with the mean and the count of
  the scores of the rows under that key. A row with a missing key cell is in no group.
\<close>

type_synonym bucket = "int \<times> int \<times> int"

definition groupby_agg ::
  "(score_row \<Rightarrow> bucket option) \<Rightarrow> score_row list \<Rightarrow> (bucket \<times> real \<times> nat) list" where
  "groupby_agg key df =
     map (\<lambda>k. let g = map Score (filter (\<lambda>r. key r = Some k) df) in (k, mean g, length g))
         (sort (remdups (List.map_filter key df)))"

text \<open>
  The renamed columns, \<^verbatim>\<open>AverageID = range(1, len + 1)\<close> and the selection of the schema's
  columns.
\<close>

definition average_table :: "(bucket \<times> real \<times> nat) list \<Rightarrow> average_row list" where
  "average_table g =
     map2 (\<lambda>i ((d, y, p), m, c).
             \<lparr>AverageID = i, avg_DefinitionID = d, avg_Year = y, avg_Period = p,
              AverageScore = m, DataPointsCount = int c\<rparr>)
          [1 .. int (length g)] g"

definition bucket_of :: "int \<Rightarrow> int option \<Rightarrow> int option \<Rightarrow> bucket option" where
  "bucket_of d y p = (case (y, p) of (Some y', Some p') \<Rightarrow> Some (d, y', p') | _ \<Rightarrow> None)"

definition weekly_key :: "score_row \<Rightarrow> bucket option" where
  "weekly_key r = bucket_of (log_DefinitionID r) (Year r) (WeekOfYear r)"

definition monthly_key :: "score_row \<Rightarrow> bucket option" where
  "monthly_key r = bucket_of (log_DefinitionID r) (Year r) (Month r)"

definition semi_annual_key :: "score_row \<Rightarrow> bucket option" where
  "semi_annual_key r = bucket_of (log_DefinitionID r) (Year r) (Half r)"

definition calculate_all_averages :: "library \<Rightarrow> tracker \<Rightarrow> exn + tracker" where
  "calculate_all_averages L s =
     (let scores_df = daily_scores (dataframes s) in
      if scores_df = [] then Inr s
      else case column_to_datetime L (map Date scores_df) of
        None \<Rightarrow> Inl ValueError
      | Some ds \<Rightarrow>
          let df1 = map2 (\<lambda>r d. r\<lparr>Date := Stamp d\<rparr>) scores_df ds;
              df2 = map (\<lambda>r. r\<lparr>Year := map_option iso_year (dt (Date r))\<rparr>) df1;
              df3 = map (\<lambda>r. r\<lparr>WeekOfYear := map_option iso_week (dt (Date r))\<rparr>) df2;
              weekly_avg = average_table (groupby_agg weekly_key df3);
              df4 = map (\<lambda>r. r\<lparr>Month := map_option month (dt (Date r))\<rparr>) df3;
              monthly_avg = average_table (groupby_agg monthly_key df4);
              df5 = map (\<lambda>r. r\<lparr>Half := map_option (\<lambda>d. (month d - 1) div 6 + 1) (dt (Date r))\<rparr>) df4;
              semi_annual_avg = average_table (groupby_agg semi_annual_key df5);
              s' = s\<lparr>dataframes := (dataframes s)
                      \<lparr>daily_scores := df5, weekly_averages := weekly_avg,
                       monthly_averages := monthly_avg, semi_annual_averages := semi_annual_avg\<rparr>\<rparr>
          in Inr (fold save_df [WeeklyAverages, MonthlyAverages, SemiAnnualAverages] s'))"

section \<open>Notions used to state the properties\<close>

text \<open>
  The row that the aggregation leaves in memory for a daily-score row whose date cell
  became the timestamp on the date \<open>d\<close>: the cell converted, the four helper columns
  filled in.
\<close>

definition converted :: "date \<Rightarrow> score_row \<Rightarrow> score_row" where
  "converted d r = r\<lparr>Date := Stamp d, Year := Some (iso_year d), WeekOfYear := Some (iso_week d),
                     Month := Some (month d), Half := Some ((month d - 1) div 6 + 1)\<rparr>"

text \<open>The rows of a table that carry given \<^verbatim>\<open>DefinitionID\<close>, \<^verbatim>\<open>Year\<close> and \<^verbatim>\<open>WeekOfYear\<close> cells.\<close>

definition rows_of_week :: "int \<Rightarrow> int \<Rightarrow> int \<Rightarrow> score_row list \<Rightarrow> score_row list" where
  "rows_of_week d y w df =
     filter (\<lambda>r. log_DefinitionID r = d \<and> Year r = Some y \<and> WeekOfYear r = Some w) df"

subsection \<open>Example data\<close>

text \<open>
  A library for the examples. Its texts are ASCII, where \<^verbatim>\<open>str.strip\<close> removes the ASCII
  white space and \<^verbatim>\<open>str.lower\<close> lowers the letters A to Z; its dates have four-digit years,
  written as \<^verbatim>\<open>YYYY-MM-DD\<close>; it reads the date texts listed here and no other, one by one
  and as a column (they share one format).
\<close>

definition ascii_space :: "char \<Rightarrow> bool" where
  "ascii_space c = ((of_char c :: nat) \<in> {9, 10, 11, 12, 13, 28, 29, 30, 31, 32})"

definition ascii_strip :: "string \<Rightarrow> string" where
  "ascii_strip t = rev (dropWhile ascii_space (rev (dropWhile ascii_space t)))"

definition ascii_lower_char :: "char \<Rightarrow> char" where
  "ascii_lower_char c =
     (let n = (of_char c :: nat) in if 65 \<le> n \<and> n \<le> 90 then char_of (n + 32) else c)"

definition ascii_lower :: "string \<Rightarrow> string" where
  "ascii_lower t = map ascii_lower_char t"

definition digit :: "nat \<Rightarrow> char" where
  "digit n = char_of (48 + n mod 10)"

fun decimal :: "nat \<Rightarrow> string" where
  "decimal n = (if n < 10 then [digit n] else decimal (n div 10) @ [digit n])"

definition zero_pad :: "nat \<Rightarrow> string \<Rightarrow> string" where
  "zero_pad w t = replicate (w - length t) (CHR ''0'') @ t"

definition ymd_text :: "date \<Rightarrow> string" where
  "ymd_text d = zero_pad 4 (decimal (nat (year d))) @ ''-'' @
                zero_pad 2 (decimal (nat (month d))) @ ''-'' @
                zero_pad 2 (decimal (nat (day d)))"

definition example_dates :: "string \<Rightarrow> date option" where
  "example_dates = [''2023-01-01'' \<mapsto> \<lparr>year = 2023, month = 1, day = 1\<rparr>,
                    ''2024-01-01'' \<mapsto> \<lparr>year = 2024, month = 1, day = 1\<rparr>,
                    ''2024-01-03'' \<mapsto> \<lparr>year = 2024, month = 1, day = 3\<rparr>,
                    ''2024-02-10'' \<mapsto> \<lparr>year = 2024, month = 2, day = 10\<rparr>]"

fun example_to_datetime :: "date_arg \<Rightarrow> date option" where
  "example_to_datetime (DateValue d) = Some d"
| "example_to_datetime (DateText t) = example_dates t"

fun example_cell :: "date_cell \<Rightarrow> date option" where
  "example_cell (Stamp d) = Some d"
| "example_cell (Text t) = example_dates t"

definition example_column :: "date_cell list \<Rightarrow> (nat \<Rightarrow> date) option" where
  "example_column col =
     (case those (map example_cell col) of None \<Rightarrow> None | Some ds \<Rightarrow> Some (\<lambda>i. ds ! i))"

definition example_library :: library where
  "example_library =
     \<lparr>int_of_text = [''1'' \<mapsto> 1, ''11'' \<mapsto> 11],
      strip = ascii_strip, lower = ascii_lower,
      to_datetime = example_to_datetime, strftime = ymd_text,
      to_datetime_column = example_column\<rparr>"

text \<open>A tracker with one subject and one behavior definition, and no scores.\<close>

definition rex :: subject where
  "rex = \<lparr>SubjectID = 1, SubjectLabel = ''Rex'', DateCreated = ''2024-01-01 09:00:00''\<rparr>"

definition sit :: definition_row where
  "sit = \<lparr>DefinitionID = 1, def_SubjectID = 1, BehaviorName = ''sit'', Description = ''''\<rparr>"

definition rex_tables :: tables where
  "rex_tables =
     \<lparr>subjects = [rex], definitions = [sit],
      daily_scores = [], weekly_averages = [], monthly_averages = [], semi_annual_averages = []\<rparr>"

definition rex_tracker :: tracker where
  "rex_tracker = \<lparr>dataframes = rex_tables, files = rex_tables, SubjectLabel_dtype = ObjectDtype\<rparr>"



text \<open>Trackers that also hold daily scores for the definition.\<close>

definition score_on :: "int \<Rightarrow> string \<Rightarrow> int \<Rightarrow> score_row" where
  "score_on i t v = \<lparr>LogID = i, log_DefinitionID = 1, Date = Text t, Score = v, Notes = '''',
                     Year = None, WeekOfYear = None, Month = None, Half = None\<rparr>"

definition with_scores :: "score_row list \<Rightarrow> tracker" where
  "with_scores rows =
     \<lparr>dataframes = rex_tables\<lparr>daily_scores := rows\<rparr>, files = rex_tables\<lparr>daily_scores := rows\<rparr>,
      SubjectLabel_dtype = ObjectDtype\<rparr>"

text \<open>A tracker with no daily scores whose average tables hold rows of an earlier run.\<close>

definition stale_average :: average_row where
  "stale_average = \<lparr>AverageID = 1, avg_DefinitionID = 1, avg_Year = 2024, avg_Period = 1,
                     AverageScore = 5, DataPointsCount = 2\<rparr>"

definition stale_tracker :: tracker where
  "stale_tracker =
     \<lparr>dataframes = rex_tables\<lparr>weekly_averages := [stale_average], monthly_averages := [stale_average]\<rparr>,
      files = rex_tables\<lparr>weekly_averages := [stale_average]\<rparr>, SubjectLabel_dtype = ObjectDtype\<rparr>"

section \<open>Properties of the repository operations\<close>

lemma rejected_input_is_skipped:
  "(strip L subject_label = [] \<longrightarrow> add_subject L now subject_label s = Inr s) \<and>
   (strip L behavior_name = [] \<or> (\<exists>e. py_int L subject_id = Inl e \<and> caught e) \<or>
    (\<exists>i. py_int L subject_id = Inr i \<and> (\<forall>r\<in>set (subjects (dataframes s)). SubjectID r \<noteq> i))
      \<longrightarrow> add_behavior_definition L subject_id behavior_name description s = Inr s) \<and>
   ((\<exists>e. py_int L definition_id = Inl e \<and> caught e) \<or>
    (\<exists>i e. py_int L definition_id = Inr i \<and> py_int L score = Inl e \<and> caught e) \<or>
    (\<exists>i n. py_int L definition_id = Inr i \<and> py_int L score = Inr n \<and> (n < 1 \<or> 10 < n)) \<or>
    (\<exists>i n. py_int L definition_id = Inr i \<and> py_int L score = Inr n \<and>
           (\<forall>r\<in>set (definitions (dataframes s)). DefinitionID r \<noteq> i))
      \<longrightarrow> log_score L definition_id date score notes s = Inr s)"
proof (intro conjI impI)
  assume "strip L subject_label = []"
  then show "add_subject L now subject_label s = Inr s"
    by (simp add: add_subject_def)
next
  assume "strip L behavior_name = [] \<or> (\<exists>e. py_int L subject_id = Inl e \<and> caught e) \<or>
    (\<exists>i. py_int L subject_id = Inr i \<and> (\<forall>r\<in>set (subjects (dataframes s)). SubjectID r \<noteq> i))"
  then show "add_behavior_definition L subject_id behavior_name description s = Inr s"
    by (auto simp: add_behavior_definition_def Let_def filter_empty_conv split: sum.splits)
next
  assume "(\<exists>e. py_int L definition_id = Inl e \<and> caught e) \<or>
    (\<exists>i e. py_int L definition_id = Inr i \<and> py_int L score = Inl e \<and> caught e) \<or>
    (\<exists>i n. py_int L definition_id = Inr i \<and> py_int L score = Inr n \<and> (n < 1 \<or> 10 < n)) \<or>
    (\<exists>i n. py_int L definition_id = Inr i \<and> py_int L score = Inr n \<and>
           (\<forall>r\<in>set (definitions (dataframes s)). DefinitionID r \<noteq> i))"
  then show "log_score L definition_id date score notes s = Inr s"
    by (auto simp: log_score_def Let_def filter_empty_conv split: sum.splits)
qed

text \<open>
  C3. A float infinity given as the subject identifier, the definition identifier or the
  score is malformed input (it is no integer, and as a score it is outside 1..10), yet it
  is not skipped silently: \<^verbatim>\<open>int\<close> raises \<^verbatim>\<open>OverflowError\<close>, which the handler
  \<^verbatim>\<open>except (ValueError, TypeError)\<close> does not catch, and the exception reaches the caller.
\<close>

theorem overflow_error_escapes_handler:
  "py_int example_library PyPosInf = Inl OverflowError \<and>
   \<not> caught OverflowError \<and>
   add_behavior_definition example_library PyPosInf ''stay'' '''' rex_tracker = Inl OverflowError \<and>
   log_score example_library PyPosInf (DateText ''2024-01-01'') (PyInt 5) '''' rex_tracker
     = Inl OverflowError \<and>
   log_score example_library (PyInt 1) (DateText ''2024-01-01'') PyPosInf '''' rex_tracker
     = Inl OverflowError"
  by code_simp






text \<open>
  C2. \<^verbatim>\<open>log_score\<close> with a valid identifier, a valid score and a date text that pandas
  cannot read raises to the caller: the conversion of the date is outside the \<^verbatim>\<open>try\<close>.
\<close>

theorem log_score_unparseable_date_raises:
  "to_datetime example_library (DateText ''not a date'') = None \<and>
   log_score example_library (PyInt 1) (DateText ''not a date'') (PyInt 5) '''' rex_tracker
     = Inl ValueError"
  by code_simp

section \<open>Properties of the aggregation\<close>

subsection \<open>What a run computes\<close>

lemma groupby_agg_pairs:
  "groupby_agg key df =
     map (\<lambda>k. let g = map snd (filter (\<lambda>p. fst p = Some k) (map (\<lambda>r. (key r, Score r)) df))
               in (k, mean g, length g))
         (sort (remdups (List.map_filter fst (map (\<lambda>r. (key r, Score r)) df))))"
  by (simp add: groupby_agg_def List.map_filter_def filter_map o_def)

lemma groupby_agg_cong:
  "map (\<lambda>r. (key r, Score r)) df = map (\<lambda>r. (key' r, Score r)) df' \<Longrightarrow>
   groupby_agg key df = groupby_agg key' df'"
  by (simp only: groupby_agg_pairs)

lemma groupby_agg_map:
  assumes "\<And>r. r \<in> set df \<Longrightarrow> key' (f r) = key r \<and> Score (f r) = Score r"
  shows "groupby_agg key' (map f df) = groupby_agg key df"
  by (rule groupby_agg_cong) (simp add: assms)

lemma groupby_agg_member:
  assumes "r \<in> set df" "key r = Some k"
  shows "(k, mean (map Score (filter (\<lambda>r'. key r' = Some k) df)),
             length (filter (\<lambda>r'. key r' = Some k) df)) \<in> set (groupby_agg key df)"
proof -
  have "k \<in> set (List.map_filter key df)"
    using assms by (induction df) (auto split: option.splits)
  then show ?thesis
    by (force simp: groupby_agg_def Let_def)
qed

lemma groupby_agg_keys_distinct: "distinct (map fst (groupby_agg key df))"
  by (simp add: groupby_agg_def o_def Let_def)

lemma length_upto_nat [simp]: "length [1 .. int n] = n"
  by simp

lemma average_table_ids: "map AverageID (average_table g) = [1 .. int (length g)]"
proof -
  have "map AverageID (average_table g) = map fst (zip [1 .. int (length g)] g)"
    by (simp add: average_table_def split_def o_def)
  then show ?thesis by simp
qed

lemma map_snd_zip_comp:
  "length xs = length ys \<Longrightarrow> map (\<lambda>p. h (snd p)) (zip xs ys) = map h ys"
  by (induction xs ys rule: list_induct2) auto

lemma average_table_rows:
  "map (\<lambda>a. ((avg_DefinitionID a, avg_Year a, avg_Period a), AverageScore a, DataPointsCount a))
       (average_table g) = map (\<lambda>(k, m, c). (k, m, int c)) g"
proof -
  have "map (\<lambda>a. ((avg_DefinitionID a, avg_Year a, avg_Period a), AverageScore a, DataPointsCount a))
          (average_table g)
        = map (\<lambda>p. (\<lambda>(k, m, c). (k, m, int c)) (snd p)) (zip [1 .. int (length g)] g)"
    by (simp add: average_table_def split_def o_def)
  also have "\<dots> = map (\<lambda>(k, m, c). (k, m, int c)) g"
    by (rule map_snd_zip_comp) simp
  finally show ?thesis .
qed

lemma length_average_table [simp]: "length (average_table g) = length g"
  by (simp add: average_table_def)

lemma average_table_member:
  assumes "((d, y, p), m, c) \<in> set g"
  shows "\<exists>a\<in>set (average_table g). avg_DefinitionID a = d \<and> avg_Year a = y \<and> avg_Period a = p \<and>
           AverageScore a = m \<and> DataPointsCount a = int c"
proof -
  have "((d, y, p), m, int c) \<in> set (map (\<lambda>(k, m, c). (k, m, int c)) g)"
    using assms by force
  then have "((d, y, p), m, int c) \<in>
      set (map (\<lambda>a. ((avg_DefinitionID a, avg_Year a, avg_Period a), AverageScore a, DataPointsCount a))
             (average_table g))"
    by (simp only: average_table_rows)
  then show ?thesis by auto
qed

lemma converted_fields [simp]:
  "Date (converted d r) = Stamp d" "Score (converted d r) = Score r"
  "log_DefinitionID (converted d r) = log_DefinitionID r"
  "Year (converted d r) = Some (iso_year d)" "WeekOfYear (converted d r) = Some (iso_week d)"
  "Month (converted d r) = Some (month d)" "Half (converted d r) = Some ((month d - 1) div 6 + 1)"
  by (simp_all add: converted_def)

lemma converted_twice [simp]: "converted d (converted d r) = converted d r"
  by (simp add: converted_def)

lemma groupby_agg_maps:
  assumes "\<And>z. z \<in> set zs \<Longrightarrow> key (f z) = key' (g z) \<and> Score (f z) = Score (g z)"
  shows "groupby_agg key (map f zs) = groupby_agg key' (map g zs)"
  by (rule groupby_agg_cong) (simp add: assms)

lemma stamps_Some: "stamps col = Some ds \<Longrightarrow> col = map Stamp ds"
  by (induction col arbitrary: ds rule: stamps.induct) auto

lemma stamps_map_Stamp [simp]: "stamps (map Stamp ds) = Some ds"
  by (induction ds) auto

lemma column_to_datetime_length:
  "column_to_datetime L col = Some ds \<Longrightarrow> length ds = length col"
  by (auto simp: column_to_datetime_def dest: stamps_Some split: option.splits)

lemma column_to_datetime_stamps [simp]: "column_to_datetime L (map Stamp ds) = Some ds"
  by (simp add: column_to_datetime_def)

lemma calculate_all_averages_raises:
  assumes "daily_scores (dataframes s) \<noteq> []"
    and "column_to_datetime L (map Date (daily_scores (dataframes s))) = None"
  shows "calculate_all_averages L s = Inl ValueError"
  using assms by (simp add: calculate_all_averages_def)

lemma calculate_all_averages_runs:
  assumes ne: "daily_scores (dataframes s) \<noteq> []"
    and col: "column_to_datetime L (map Date (daily_scores (dataframes s))) = Some ds"
  defines "df' \<equiv> map2 (\<lambda>r d. converted d r) (daily_scores (dataframes s)) ds"
  shows "calculate_all_averages L s =
         Inr (s\<lparr>dataframes := (dataframes s)
                  \<lparr>daily_scores := df',
                   weekly_averages := average_table (groupby_agg weekly_key df'),
                   monthly_averages := average_table (groupby_agg monthly_key df'),
                   semi_annual_averages := average_table (groupby_agg semi_annual_key df')\<rparr>,
                files := (files s)
                  \<lparr>weekly_averages := average_table (groupby_agg weekly_key df'),
                   monthly_averages := average_table (groupby_agg monthly_key df'),
                   semi_annual_averages := average_table (groupby_agg semi_annual_key df')\<rparr>\<rparr>)"
proof -
  let ?zs = "zip (daily_scores (dataframes s)) ds"
  define df1 where "df1 = map2 (\<lambda>r d. r\<lparr>Date := Stamp d\<rparr>) (daily_scores (dataframes s)) ds"
  define df2 where "df2 = map (\<lambda>r. r\<lparr>Year := map_option iso_year (dt (Date r))\<rparr>) df1"
  define df3 where "df3 = map (\<lambda>r. r\<lparr>WeekOfYear := map_option iso_week (dt (Date r))\<rparr>) df2"
  define df4 where "df4 = map (\<lambda>r. r\<lparr>Month := map_option month (dt (Date r))\<rparr>) df3"
  define df5 where
    "df5 = map (\<lambda>r. r\<lparr>Half := map_option (\<lambda>d. (month d - 1) div 6 + 1) (dt (Date r))\<rparr>) df4"
  have run: "calculate_all_averages L s =
     Inr (fold save_df [WeeklyAverages, MonthlyAverages, SemiAnnualAverages]
       (s\<lparr>dataframes := (dataframes s)
           \<lparr>daily_scores := df5, weekly_averages := average_table (groupby_agg weekly_key df3),
            monthly_averages := average_table (groupby_agg monthly_key df4),
            semi_annual_averages := average_table (groupby_agg semi_annual_key df5)\<rparr>\<rparr>))"
    using ne
    by (simp only: calculate_all_averages_def Let_def col option.case if_False
          df1_def df2_def df3_def df4_def df5_def)
  have e3: "df3 = map (\<lambda>z. (fst z)\<lparr>Date := Stamp (snd z), Year := Some (iso_year (snd z)),
                          WeekOfYear := Some (iso_week (snd z))\<rparr>) ?zs"
    by (simp add: df3_def df2_def df1_def split_def)
  have e4: "df4 = map (\<lambda>z. (fst z)\<lparr>Date := Stamp (snd z), Year := Some (iso_year (snd z)),
                          WeekOfYear := Some (iso_week (snd z)), Month := Some (month (snd z))\<rparr>) ?zs"
    by (simp add: df4_def e3)
  have e5: "df5 = df'"
    by (simp add: df5_def e4 df'_def converted_def split_def)
  have e': "df' = map (\<lambda>z. converted (snd z) (fst z)) ?zs"
    by (simp add: df'_def split_def)
  have w: "groupby_agg weekly_key df3 = groupby_agg weekly_key df'"
    unfolding e3 e' by (rule groupby_agg_maps) (simp add: weekly_key_def)
  have m: "groupby_agg monthly_key df4 = groupby_agg monthly_key df'"
    unfolding e4 e' by (rule groupby_agg_maps) (simp add: monthly_key_def)
  show ?thesis
    unfolding run w m e5 by simp
qed

lemma calculate_all_averages_returns:
  assumes "calculate_all_averages L s = Inr s'" and "daily_scores (dataframes s) \<noteq> []"
  obtains ds where "column_to_datetime L (map Date (daily_scores (dataframes s))) = Some ds"
    and "length ds = length (daily_scores (dataframes s))"
proof (cases "column_to_datetime L (map Date (daily_scores (dataframes s)))")
  case None
  with assms calculate_all_averages_raises [of s L] show ?thesis by simp
next
  case (Some ds)
  with column_to_datetime_length [OF Some] that show ?thesis by simp
qed

lemma map2_map2_same:
  "length xs = length ys \<Longrightarrow> map2 f (map2 g xs ys) ys = map2 (\<lambda>x y. f (g x y) y) xs ys"
  by (induction xs ys rule: list_induct2) auto

lemma map_Date_converted:
  "length ds = length df \<Longrightarrow> map Date (map2 (\<lambda>r d. converted d r) df ds) = map Stamp ds"
  by (induction ds df rule: list_induct2) auto

text \<open>
  C5. A second run right after a run that returned returns too and leaves the tracker
  exactly as the first run left it: the three average tables, in memory and in the files,
  have the same rows, the same \<^verbatim>\<open>AverageID\<close>s, scores and counts.
\<close>

theorem calculate_all_averages_idempotent:
  assumes "calculate_all_averages L s = Inr s1"
  shows "calculate_all_averages L s1 = Inr s1"
proof (cases "daily_scores (dataframes s) = []")
  case True
  then have "s1 = s" using assms by (simp add: calculate_all_averages_def)
  then show ?thesis using assms by simp
next
  case False
  let ?df = "daily_scores (dataframes s)"
  from assms False obtain ds where col: "column_to_datetime L (map Date ?df) = Some ds"
    and len: "length ds = length ?df"
    by (rule calculate_all_averages_returns)
  let ?df' = "map2 (\<lambda>r d. converted d r) ?df ds"
  have s1: "s1 = s\<lparr>dataframes := (dataframes s)
                  \<lparr>daily_scores := ?df',
                   weekly_averages := average_table (groupby_agg weekly_key ?df'),
                   monthly_averages := average_table (groupby_agg monthly_key ?df'),
                   semi_annual_averages := average_table (groupby_agg semi_annual_key ?df')\<rparr>,
                files := (files s)
                  \<lparr>weekly_averages := average_table (groupby_agg weekly_key ?df'),
                   monthly_averages := average_table (groupby_agg monthly_key ?df'),
                   semi_annual_averages := average_table (groupby_agg semi_annual_key ?df')\<rparr>\<rparr>"
    using calculate_all_averages_runs [OF False col] assms by simp
  have df1: "daily_scores (dataframes s1) = ?df'" by (simp add: s1)
  have ne1: "daily_scores (dataframes s1) \<noteq> []" using False len by (auto simp: df1)
  have col1: "column_to_datetime L (map Date (daily_scores (dataframes s1))) = Some ds"
    unfolding df1 map_Date_converted [OF len] by simp
  have same: "map2 (\<lambda>r d. converted d r) (daily_scores (dataframes s1)) ds = ?df'"
    unfolding df1 using map2_map2_same [OF len [symmetric], of "\<lambda>r d. converted d r" "\<lambda>r d. converted d r"]
    by simp
  show ?thesis
    unfolding calculate_all_averages_runs [OF ne1 col1] same
    by (simp add: s1)
qed

theorem calculate_all_averages_idempotent_witness:
  "\<exists>s1. calculate_all_averages example_library
           (with_scores [score_on 1 ''2024-01-01'' 4, score_on 2 ''2024-01-03'' 6,
                         score_on 3 ''2024-02-10'' 10]) = Inr s1 \<and>
        calculate_all_averages example_library s1 = Inr s1 \<and>
        monthly_averages (dataframes s1) =
          [\<lparr>AverageID = 1, avg_DefinitionID = 1, avg_Year = 2024, avg_Period = 1,
            AverageScore = 5, DataPointsCount = 2\<rparr>,
           \<lparr>AverageID = 2, avg_DefinitionID = 1, avg_Year = 2024, avg_Period = 2,
            AverageScore = 10, DataPointsCount = 1\<rparr>]"
proof -
  let ?s = "with_scores [score_on 1 ''2024-01-01'' 4, score_on 2 ''2024-01-03'' 6,
                         score_on 3 ''2024-02-10'' 10]"
  have "case calculate_all_averages example_library ?s of
          Inl e \<Rightarrow> False
        | Inr s1 \<Rightarrow> monthly_averages (dataframes s1) =
          [\<lparr>AverageID = 1, avg_DefinitionID = 1, avg_Year = 2024, avg_Period = 1,
            AverageScore = 5, DataPointsCount = 2\<rparr>,
           \<lparr>AverageID = 2, avg_DefinitionID = 1, avg_Year = 2024, avg_Period = 2,
            AverageScore = 10, DataPointsCount = 1\<rparr>]"
    by code_simp
  then obtain s1 where run: "calculate_all_averages example_library ?s = Inr s1"
    and m: "monthly_averages (dataframes s1) =
          [\<lparr>AverageID = 1, avg_DefinitionID = 1, avg_Year = 2024, avg_Period = 1,
            AverageScore = 5, DataPointsCount = 2\<rparr>,
           \<lparr>AverageID = 2, avg_DefinitionID = 1, avg_Year = 2024, avg_Period = 2,
            AverageScore = 10, DataPointsCount = 1\<rparr>]"
    by (auto split: sum.splits)
  from calculate_all_averages_idempotent [OF run] run m show ?thesis by blast
qed

text \<open>
  C10. A run on a table with rows that returns rewrites the daily scores in memory: every
  \<^verbatim>\<open>Date\<close> cell becomes the timestamp that the conversion of the column gave its row, and
  \<^verbatim>\<open>Year\<close>, \<^verbatim>\<open>WeekOfYear\<close>, \<^verbatim>\<open>Month\<close> and \<^verbatim>\<open>Half\<close> are filled in. The files of the daily scores,
  the subjects and the definitions are not written; the three average tables are, and
  hold what is in memory.
\<close>

theorem aggregation_converts_daily_scores_in_memory:
  assumes "calculate_all_averages L s = Inr s'" and "daily_scores (dataframes s) \<noteq> []"
  shows "\<exists>ds. column_to_datetime L (map Date (daily_scores (dataframes s))) = Some ds \<and>
           length ds = length (daily_scores (dataframes s)) \<and>
           daily_scores (dataframes s') = map2 (\<lambda>r d. converted d r) (daily_scores (dataframes s)) ds \<and>
           daily_scores (files s') = daily_scores (files s) \<and>
           subjects (files s') = subjects (files s) \<and>
           definitions (files s') = definitions (files s) \<and>
           weekly_averages (files s') = weekly_averages (dataframes s') \<and>
           monthly_averages (files s') = monthly_averages (dataframes s') \<and>
           semi_annual_averages (files s') = semi_annual_averages (dataframes s')"
proof -
  from assms obtain ds
    where col: "column_to_datetime L (map Date (daily_scores (dataframes s))) = Some ds"
      and len: "length ds = length (daily_scores (dataframes s))"
    by (rule calculate_all_averages_returns)
  from calculate_all_averages_runs [OF assms(2) col] assms(1) col len
  show ?thesis by (intro exI [of _ ds]) auto
qed

theorem aggregation_converts_daily_scores_in_memory_witness:
  "\<exists>s'. calculate_all_averages example_library (with_scores [score_on 1 ''2023-01-01'' 5]) = Inr s' \<and>
        daily_scores (dataframes (with_scores [score_on 1 ''2023-01-01'' 5])) \<noteq> [] \<and>
        daily_scores (dataframes s') =
          [\<lparr>LogID = 1, log_DefinitionID = 1, Date = Stamp \<lparr>year = 2023, month = 1, day = 1\<rparr>,
            Score = 5, Notes = '''', Year = Some 2022, WeekOfYear = Some 52, Month = Some 1,
            Half = Some 1\<rparr>] \<and>
        daily_scores (files s') = [score_on 1 ''2023-01-01'' 5] \<and>
        weekly_averages (files s') = weekly_averages (dataframes s') \<and>
        monthly_averages (files s') = monthly_averages (dataframes s') \<and>
        semi_annual_averages (files s') = semi_annual_averages (dataframes s')"
proof -
  let ?s = "with_scores [score_on 1 ''2023-01-01'' 5]"
  have "case calculate_all_averages example_library ?s of
          Inl e \<Rightarrow> False
        | Inr s' \<Rightarrow> daily_scores (dataframes s') =
          [\<lparr>LogID = 1, log_DefinitionID = 1, Date = Stamp \<lparr>year = 2023, month = 1, day = 1\<rparr>,
            Score = 5, Notes = '''', Year = Some 2022, WeekOfYear = Some 52, Month = Some 1,
            Half = Some 1\<rparr>]"
    by code_simp
  then obtain s' where run: "calculate_all_averages example_library ?s = Inr s'"
    and df: "daily_scores (dataframes s') =
          [\<lparr>LogID = 1, log_DefinitionID = 1, Date = Stamp \<lparr>year = 2023, month = 1, day = 1\<rparr>,
            Score = 5, Notes = '''', Year = Some 2022, WeekOfYear = Some 52, Month = Some 1,
            Half = Some 1\<rparr>]"
    by (auto split: sum.splits)
  have ne: "daily_scores (dataframes ?s) \<noteq> []" by (simp add: with_scores_def)
  have fl: "daily_scores (files ?s) = [score_on 1 ''2023-01-01'' 5]"
    by (simp add: with_scores_def)
  from aggregation_converts_daily_scores_in_memory [OF run ne] run ne df fl
  show ?thesis by auto
qed

text \<open>
  C6. After a run on a table with rows that returns, the \<^verbatim>\<open>AverageID\<close>s of each of the three
  average tables are 1, 2, ..., N in row order, N the number of its rows. The tables are a
  function of the daily scores alone: a run on any tracker holding the same daily scores
  returns too and yields the same three tables, rows in the same order.
\<close>

theorem average_ids_dense_and_deterministic:
  assumes "calculate_all_averages L s = Inr s'" and "daily_scores (dataframes s) \<noteq> []"
  shows "map AverageID (weekly_averages (dataframes s'))
           = [1 .. int (length (weekly_averages (dataframes s')))] \<and>
         map AverageID (monthly_averages (dataframes s'))
           = [1 .. int (length (monthly_averages (dataframes s')))] \<and>
         map AverageID (semi_annual_averages (dataframes s'))
           = [1 .. int (length (semi_annual_averages (dataframes s')))] \<and>
         (\<forall>s2. daily_scores (dataframes s2) = daily_scores (dataframes s) \<longrightarrow>
            (\<exists>s2'. calculate_all_averages L s2 = Inr s2' \<and>
               weekly_averages (dataframes s2') = weekly_averages (dataframes s') \<and>
               monthly_averages (dataframes s2') = monthly_averages (dataframes s') \<and>
               semi_annual_averages (dataframes s2') = semi_annual_averages (dataframes s')))"
proof -
  from assms obtain ds
    where col: "column_to_datetime L (map Date (daily_scores (dataframes s))) = Some ds"
    by (rule calculate_all_averages_returns)
  note run = calculate_all_averages_runs [OF assms(2) col]
  have s': "weekly_averages (dataframes s') = average_table (groupby_agg weekly_key
                (map2 (\<lambda>r d. converted d r) (daily_scores (dataframes s)) ds))"
    "monthly_averages (dataframes s') = average_table (groupby_agg monthly_key
                (map2 (\<lambda>r d. converted d r) (daily_scores (dataframes s)) ds))"
    "semi_annual_averages (dataframes s') = average_table (groupby_agg semi_annual_key
                (map2 (\<lambda>r d. converted d r) (daily_scores (dataframes s)) ds))"
    using run assms(1) by auto
  have ids: "map AverageID (weekly_averages (dataframes s'))
           = [1 .. int (length (weekly_averages (dataframes s')))]"
    "map AverageID (monthly_averages (dataframes s'))
           = [1 .. int (length (monthly_averages (dataframes s')))]"
    "map AverageID (semi_annual_averages (dataframes s'))
           = [1 .. int (length (semi_annual_averages (dataframes s')))]"
    by (simp_all add: s' average_table_ids)
  have det: "\<exists>s2'. calculate_all_averages L s2 = Inr s2' \<and>
               weekly_averages (dataframes s2') = weekly_averages (dataframes s') \<and>
               monthly_averages (dataframes s2') = monthly_averages (dataframes s') \<and>
               semi_annual_averages (dataframes s2') = semi_annual_averages (dataframes s')"
    if eq: "daily_scores (dataframes s2) = daily_scores (dataframes s)" for s2
  proof -
    have ne2: "daily_scores (dataframes s2) \<noteq> []" using assms(2) eq by simp
    have col2: "column_to_datetime L (map Date (daily_scores (dataframes s2))) = Some ds"
      using col eq by simp
    show ?thesis
      unfolding calculate_all_averages_runs [OF ne2 col2]
      by (simp add: s' eq)
  qed
  from ids det show ?thesis by blast
qed

theorem average_ids_dense_and_deterministic_witness:
  "\<exists>s'. calculate_all_averages example_library
           (with_scores [score_on 1 ''2024-01-01'' 4, score_on 2 ''2024-01-03'' 6,
                         score_on 3 ''2024-02-10'' 10]) = Inr s' \<and>
        daily_scores (dataframes (with_scores [score_on 1 ''2024-01-01'' 4,
           score_on 2 ''2024-01-03'' 6, score_on 3 ''2024-02-10'' 10])) \<noteq> [] \<and>
        map AverageID (weekly_averages (dataframes s')) = [1, 2] \<and>
        map AverageID (monthly_averages (dataframes s')) = [1, 2] \<and>
        map AverageID (semi_annual_averages (dataframes s')) = [1] \<and>
        (\<exists>s2'. calculate_all_averages example_library
                 ((with_scores [score_on 1 ''2024-01-01'' 4, score_on 2 ''2024-01-03'' 6,
                                score_on 3 ''2024-02-10'' 10])
                    \<lparr>dataframes := (rex_tables
                       \<lparr>daily_scores := [score_on 1 ''2024-01-01'' 4, score_on 2 ''2024-01-03'' 6,
                                         score_on 3 ''2024-02-10'' 10],
                        weekly_averages := [stale_average]\<rparr>)\<rparr>) = Inr s2' \<and>
               weekly_averages (dataframes s2') = weekly_averages (dataframes s') \<and>
               monthly_averages (dataframes s2') = monthly_averages (dataframes s') \<and>
               semi_annual_averages (dataframes s2') = semi_annual_averages (dataframes s'))"
proof -
  let ?rows = "[score_on 1 ''2024-01-01'' 4, score_on 2 ''2024-01-03'' 6, score_on 3 ''2024-02-10'' 10]"
  let ?s = "with_scores ?rows"
  let ?s2 = "?s\<lparr>dataframes := (rex_tables\<lparr>daily_scores := ?rows, weekly_averages := [stale_average]\<rparr>)\<rparr>"
  have "case calculate_all_averages example_library ?s of
          Inl e \<Rightarrow> False
        | Inr s' \<Rightarrow> length (weekly_averages (dataframes s')) = 2 \<and>
                   length (monthly_averages (dataframes s')) = 2 \<and>
                   length (semi_annual_averages (dataframes s')) = 1"
    by code_simp
  then obtain s' where run: "calculate_all_averages example_library ?s = Inr s'"
    and len: "length (weekly_averages (dataframes s')) = 2"
      "length (monthly_averages (dataframes s')) = 2"
      "length (semi_annual_averages (dataframes s')) = 1"
    by (auto split: sum.splits)
  have ne: "daily_scores (dataframes ?s) \<noteq> []" by (simp add: with_scores_def)
  have eq: "daily_scores (dataframes ?s2) = daily_scores (dataframes ?s)"
    by (simp add: with_scores_def)
  have up: "[1 .. 2] = [1, 2::int]" "[1 .. 1] = [1::int]" by (simp_all add: upto.simps)
  from average_ids_dense_and_deterministic [OF run ne] run ne eq
  show ?thesis unfolding len by (auto simp: up)
qed

text \<open>
  C9. With no daily scores \<^verbatim>\<open>calculate_all_averages\<close> returns at once: the tracker, with
  whatever the three average tables held in memory and in the files, is unchanged.
\<close>

theorem calculate_all_averages_empty:
  "daily_scores (dataframes s) = [] \<Longrightarrow> calculate_all_averages L s = Inr s"
  by (simp add: calculate_all_averages_def)

theorem calculate_all_averages_empty_witness:
  "daily_scores (dataframes stale_tracker) = [] \<and>
   weekly_averages (dataframes stale_tracker) = [stale_average] \<and>
   calculate_all_averages example_library stale_tracker = Inr stale_tracker"
proof -
  have a: "daily_scores (dataframes stale_tracker) = []"
    by (simp add: stale_tracker_def rex_tables_def)
  have b: "weekly_averages (dataframes stale_tracker) = [stale_average]"
    by (simp add: stale_tracker_def rex_tables_def)
  from calculate_all_averages_empty [OF a, of example_library] a b show ?thesis by blast
qed

text \<open>
  C1. A score dated 2023-01-01 for definition 1: the monthly and the semi-annual record
  it contributes to carry \<^verbatim>\<open>Year\<close> 2022, the ISO week-numbering year of the date, while
  its calendar year is 2023 (month 1, half 1).
\<close>

theorem monthly_year_is_iso_year:
  "to_datetime example_library (DateText ''2023-01-01'') = Some \<lparr>year = 2023, month = 1, day = 1\<rparr> \<and>
   (case calculate_all_averages example_library (with_scores [score_on 1 ''2023-01-01'' 5]) of
      Inl e \<Rightarrow> False
    | Inr s' \<Rightarrow>
        monthly_averages (dataframes s') =
          [\<lparr>AverageID = 1, avg_DefinitionID = 1, avg_Year = 2022, avg_Period = 1,
            AverageScore = 5, DataPointsCount = 1\<rparr>] \<and>
        semi_annual_averages (dataframes s') =
          [\<lparr>AverageID = 1, avg_DefinitionID = 1, avg_Year = 2022, avg_Period = 1,
            AverageScore = 5, DataPointsCount = 1\<rparr>])"
  by code_simp

subsection \<open>The ISO calendar of the model follows ISO 8601\<close>

lemma div_step:
  assumes "0 < (k::int)"
  shows "(x + 1) div k = x div k + (if (x + 1) mod k = 0 then 1 else 0)"
proof -
  define q where "q = x div k"
  define r where "r = x mod k"
  have x: "x = k * q + r" and r: "0 \<le> r" "r < k"
    using assms by (simp_all add: q_def r_def)
  show ?thesis
  proof (cases "r + 1 = k")
    case True
    then have "x + 1 = k * (q + 1)" using x by (simp add: algebra_simps)
    then have "(x + 1) div k = q + 1" "(x + 1) mod k = 0" using assms by simp_all
    then show ?thesis by (simp add: q_def)
  next
    case False
    then have lt: "r + 1 < k" using r by simp
    have e: "x + 1 = k * q + (r + 1)" using x by simp
    have d: "(x + 1) div k = q"
      unfolding e using lt r assms by (simp add: div_pos_pos_trivial)
    have m: "(x + 1) mod k = r + 1"
      unfolding e using lt r assms by (simp add: mod_pos_pos_trivial)
    from d m r show ?thesis by (simp add: q_def)
  qed
qed

lemma leap_len:
  "(b100 \<longrightarrow> b4) \<Longrightarrow> (b400 \<longrightarrow> b100) \<Longrightarrow>
   365 + (if b4 then 1 else 0) - (if b100 then 1 else 0) + (if b400 then 1 else 0)
     = (if b4 \<and> (\<not> b100 \<or> b400) then 366 else (365::int))"
  by (cases b4; cases b100; cases b400; simp)

lemma year_sum:
  "Y4 = P4 + i4 \<Longrightarrow> Y100 = P100 + i100 \<Longrightarrow> Y400 = P400 + i400 \<Longrightarrow>
   y * 365 + Y4 - Y100 + Y400 = (y - 1) * 365 + P4 - P100 + P400 + (365 + i4 - i100 + i400)"
  for y :: int
  by (simp add: algebra_simps)

lemma days_before_year_step:
  "days_before_year (y + 1) = days_before_year y + year_length y"
proof -
  have a: "y div 4 = (y - 1) div 4 + (if y mod 4 = 0 then 1 else 0)"
    using div_step [of 4 "y - 1"] by simp
  have b: "y div 100 = (y - 1) div 100 + (if y mod 100 = 0 then 1 else 0)"
    using div_step [of 100 "y - 1"] by simp
  have c: "y div 400 = (y - 1) div 400 + (if y mod 400 = 0 then 1 else 0)"
    using div_step [of 400 "y - 1"] by simp
  have d: "y mod 100 = 0 \<longrightarrow> y mod 4 = 0"
    using dvd_trans [of 4 100 y] by (simp add: mod_eq_0_iff_dvd)
  have e: "y mod 400 = 0 \<longrightarrow> y mod 100 = 0"
    using dvd_trans [of 100 400 y] by (simp add: mod_eq_0_iff_dvd)
  have "days_before_year (y + 1) = y * 365 + y div 4 - y div 100 + y div 400"
    by (simp add: days_before_year_def)
  also have "\<dots> = (y - 1) * 365 + (y - 1) div 4 - (y - 1) div 100 + (y - 1) div 400 +
      (365 + (if y mod 4 = 0 then 1 else 0) - (if y mod 100 = 0 then 1 else 0)
           + (if y mod 400 = 0 then 1 else 0))"
    by (rule year_sum [OF a b c])
  also have "\<dots> = days_before_year y + year_length y"
    unfolding leap_len [OF d e]
    by (simp add: days_before_year_def year_length_def is_leap_def Let_def)
  finally show ?thesis .
qed

lemma month_cases:
  assumes "1 \<le> (m::int)" "m \<le> 12"
  shows "m = 1 \<or> m = 2 \<or> m = 3 \<or> m = 4 \<or> m = 5 \<or> m = 6 \<or> m = 7 \<or> m = 8 \<or> m = 9 \<or> m = 10 \<or> m = 11 \<or> m = 12"
  using assms by presburger

lemma day_of_year_bounds:
  assumes "valid_date da"
  shows "1 \<le> days_before_month (year da) (month da) + day da \<and>
         days_before_month (year da) (month da) + day da \<le> year_length (year da)"
proof -
  have m: "1 \<le> month da" "month da \<le> 12" and d: "1 \<le> day da"
    "day da \<le> days_in_month (year da) (month da)"
    using assms unfolding valid_date_def by auto
  have tab: "days_before_month y 1 = 0" "days_before_month y 2 = 31"
    "days_before_month y 3 = 31 + days_in_month y 2"
    "days_before_month y 4 = 62 + days_in_month y 2"
    "days_before_month y 5 = 92 + days_in_month y 2"
    "days_before_month y 6 = 123 + days_in_month y 2"
    "days_before_month y 7 = 153 + days_in_month y 2"
    "days_before_month y 8 = 184 + days_in_month y 2"
    "days_before_month y 9 = 215 + days_in_month y 2"
    "days_before_month y 10 = 245 + days_in_month y 2"
    "days_before_month y 11 = 276 + days_in_month y 2"
    "days_before_month y 12 = 306 + days_in_month y 2" for y
    by (simp_all add: days_before_month_def days_in_month_def upto.simps)
  have feb: "days_in_month (year da) 2 = year_length (year da) - 337"
    by (simp add: days_in_month_def year_length_def)
  have dim: "days_in_month y 1 = 31" "days_in_month y 3 = 31" "days_in_month y 4 = 30"
    "days_in_month y 5 = 31" "days_in_month y 6 = 30" "days_in_month y 7 = 31"
    "days_in_month y 8 = 31" "days_in_month y 9 = 30" "days_in_month y 10 = 31"
    "days_in_month y 11 = 30" "days_in_month y 12 = 31" for y
    by (simp_all add: days_in_month_def)
  have len: "365 \<le> year_length (year da)" by (simp add: year_length_def)
  from month_cases [OF m] show ?thesis
  proof (elim disjE)
    assume "month da = 2"
    with d feb len show ?thesis by (simp add: tab)
  qed (use d feb len in \<open>simp_all add: tab dim\<close>)
qed

lemma first_of_january: "ymd2ord y 1 1 = days_before_year y + 1"
  by (simp add: ymd2ord_def days_before_month_def)

lemma isoweek1monday_props:
  "\<exists>a. isoweek1monday y = 7 * a + 1 \<and> days_before_year y - 2 \<le> 7 * a + 1 \<and>
       7 * a + 1 \<le> days_before_year y + 4"
proof -
  have "\<exists>a. (if (B + 1 + 6) mod 7 > 3 then B + 1 - (B + 1 + 6) mod 7 + 7 else B + 1 - (B + 1 + 6) mod 7)
               = 7 * a + 1 \<and> B - 2 \<le> 7 * a + 1 \<and> 7 * a + 1 \<le> B + 4" for B :: int
    by presburger
  from this [of "days_before_year y"] show ?thesis
    by (simp add: isoweek1monday_def first_of_january Let_def)
qed

lemma thursday_props:
  "\<exists>m. (t::int) - (t + 6) mod 7 + 3 = 7 * m + 4 \<and> 7 * m + 1 \<le> t \<and> t \<le> 7 * m + 7"
  by presburger

lemma div7: "0 \<le> r \<Longrightarrow> r < 7 \<Longrightarrow> (7 * k + r) div 7 = (k::int)"
  by simp


lemma year_length_bounds: "365 \<le> year_length y" "year_length y \<le> 366"
  by (simp_all add: year_length_def)

lemma div7_shift:
  assumes "b - 2 \<le> 7 * a + 1" "7 * a + 1 \<le> b + 4"
  shows "(7 * m + 4 - b - 1) div 7 = m - (a::int)"
proof -
  have "7 * m + 4 - b - 1 = 7 * (m - a) + (7 * a + 3 - b)" by simp
  moreover have "0 \<le> 7 * a + 3 - b" "7 * a + 3 - b < 7" using assms by simp_all
  ultimately show ?thesis by (simp only: div7)
qed

lemma week_index:
  assumes "7 * m + 1 \<le> t" "t \<le> 7 * m + 7"
  shows "(t - (7 * a + 1)) div 7 = m - (a::int)"
proof -
  have "t - (7 * a + 1) = 7 * (m - a) + (t - 7 * m - 1)" by simp
  moreover have "0 \<le> t - 7 * m - 1" "t - 7 * m - 1 < 7" using assms by simp_all
  ultimately show ?thesis by (simp only: div7)
qed

lemma isocalendar_iso8601:
  assumes "valid_date da"
  shows "iso8601_week da (iso_year da) (iso_week da)"
proof -
  let ?y = "year da"
  define A B C D where "A = days_before_year (?y - 1)" and "B = days_before_year ?y"
    and "C = days_before_year (?y + 1)" and "D = days_before_year (?y + 1 + 1)"
  define n where "n = days_before_month ?y (month da) + day da"
  define t where "t = ymd2ord ?y (month da) (day da)"
  have t: "t = B + n" by (simp add: t_def B_def n_def ymd2ord_def)
  have n: "1 \<le> n" "n \<le> year_length ?y"
    using day_of_year_bounds [OF assms] by (simp_all add: n_def)
  have BC: "C = B + year_length ?y"
    unfolding C_def B_def by (rule days_before_year_step)
  have AB: "B = A + year_length (?y - 1)"
    using days_before_year_step [of "?y - 1"] by (simp add: A_def B_def)
  have CD: "D = C + year_length (?y + 1)"
    unfolding D_def C_def by (rule days_before_year_step)
  note len = year_length_bounds
  obtain a where a: "isoweek1monday ?y = 7 * a + 1" "B - 2 \<le> 7 * a + 1" "7 * a + 1 \<le> B + 4"
    using isoweek1monday_props [of ?y] unfolding B_def by blast
  obtain a' where a': "isoweek1monday (?y - 1) = 7 * a' + 1" "A - 2 \<le> 7 * a' + 1"
      "7 * a' + 1 \<le> A + 4"
    using isoweek1monday_props [of "?y - 1"] unfolding A_def by blast
  obtain c where c: "isoweek1monday (?y + 1) = 7 * c + 1" "C - 2 \<le> 7 * c + 1"
      "7 * c + 1 \<le> C + 4"
    using isoweek1monday_props [of "?y + 1"] unfolding C_def by blast
  obtain m where m: "t - (t + 6) mod 7 + 3 = 7 * m + 4" "7 * m + 1 \<le> t" "t \<le> 7 * m + 7"
    using thursday_props [of t] by blast
  have wk: "(t - (7 * a + 1)) div 7 = m - a" by (rule week_index [OF m(2,3)])
  have wk': "(t - (7 * a' + 1)) div 7 = m - a'" by (rule week_index [OF m(2,3)])
  have yr: "iso_year da = (if m - a < 0 then ?y - 1
                            else if 52 \<le> m - a \<and> 7 * c + 1 \<le> t then ?y + 1 else ?y)"
    unfolding iso_year_def isocalendar_def Let_def t_def [symmetric] a(1) a'(1) c(1) wk wk'
    by simp
  have wn: "iso_week da = (if m - a < 0 then m - a' + 1
                            else if 52 \<le> m - a \<and> 7 * c + 1 \<le> t then 1 else m - a + 1)"
    unfolding iso_week_def isocalendar_def Let_def t_def [symmetric] a(1) a'(1) c(1) wk wk'
    by simp
  have th: "ymd2ord ?y (month da) (day da) - weekday da + 3 = 7 * m + 4"
    unfolding weekday_def t_def [symmetric] by (rule m(1))
  consider (before) "m - a < 0" | (after) "\<not> m - a < 0" "52 \<le> m - a" "7 * c + 1 \<le> t"
    | (same) "\<not> m - a < 0" "\<not> (52 \<le> m - a \<and> 7 * c + 1 \<le> t)"
    by blast
  then show ?thesis
  proof cases
    case before
    have 1: "A < 7 * m + 4" using m(3) t n(1) AB len(1) [of "?y - 1"] by linarith
    have 2: "7 * m + 4 \<le> B" using before a(3) by linarith
    have 3: "(7 * m + 4 - A - 1) div 7 = m - a'" by (rule div7_shift [OF a'(2,3)])
    show ?thesis
      unfolding iso8601_week_def Let_def th yr wn using before 1 2 3
      by (simp add: A_def B_def)
  next
    case after
    have cm: "c \<le> m" using after(3) m(3) by linarith
    have 1: "C < 7 * m + 4" using cm c(2) by linarith
    have 2: "7 * m + 4 \<le> D" using m(2) t n(2) BC CD len(1) [of "?y + 1"] by linarith
    have "0 \<le> 7 * m + 4 - C - 1" "7 * m + 4 - C - 1 < 7"
      using 1 m(2) t n(2) BC by linarith+
    then have 3: "(7 * m + 4 - C - 1) div 7 = 0" by simp
    show ?thesis
      unfolding iso8601_week_def Let_def th yr wn using after 1 2 3
      by (simp add: C_def D_def)
  next
    case same
    have 1: "B < 7 * m + 4" using same(1) a(2) by linarith
    have 2: "7 * m + 4 \<le> C"
    proof (cases "52 \<le> m - a")
      case True
      then have "t < 7 * c + 1" using same(2) by simp
      then have "m < c" using m(2) by linarith
      then show ?thesis using c(3) by linarith
    next
      case False
      then show ?thesis using a(3) BC len(1) [of ?y] by linarith
    qed
    have 3: "(7 * m + 4 - B - 1) div 7 = m - a" by (rule div7_shift [OF a(2,3)])
    show ?thesis
      unfolding iso8601_week_def Let_def th yr wn using same 1 2 3
      by (simp add: B_def C_def)
  qed
qed

subsection \<open>The weekly buckets\<close>

lemma average_table_keys:
  "map (\<lambda>a. (avg_DefinitionID a, avg_Year a, avg_Period a)) (average_table g) = map fst g"
proof -
  have "map fst (map (\<lambda>a. ((avg_DefinitionID a, avg_Year a, avg_Period a), AverageScore a,
                             DataPointsCount a)) (average_table g))
        = map fst (map (\<lambda>(k, m, c). (k, m, int c)) g)"
    by (simp only: average_table_rows)
  then show ?thesis by (simp add: o_def split_def)
qed

lemma average_table_key_unique:
  assumes "distinct (map fst g)" "a \<in> set (average_table g)" "a' \<in> set (average_table g)"
    and "avg_DefinitionID a' = avg_DefinitionID a" "avg_Year a' = avg_Year a"
      "avg_Period a' = avg_Period a"
  shows "a' = a"
proof -
  have "distinct (map (\<lambda>a. (avg_DefinitionID a, avg_Year a, avg_Period a)) (average_table g))"
    using assms(1) by (simp only: average_table_keys)
  then have "inj_on (\<lambda>a. (avg_DefinitionID a, avg_Year a, avg_Period a)) (set (average_table g))"
    by (simp add: distinct_map)
  then show ?thesis using assms(2-6) by (auto dest: inj_onD)
qed

lemma weekly_key_eq:
  "weekly_key r = Some (d, y, w) \<longleftrightarrow>
     log_DefinitionID r = d \<and> Year r = Some y \<and> WeekOfYear r = Some w"
  by (auto simp: weekly_key_def bucket_of_def split: option.splits)

lemma rows_of_week_filter:
  "filter (\<lambda>r. weekly_key r = Some (d, y, w)) df = rows_of_week d y w df"
  by (simp add: rows_of_week_def weekly_key_eq)

text \<open>
  C4. After a run that returns, every daily-score row is counted in the weekly record of
  its definition whose \<^verbatim>\<open>Year\<close> and \<^verbatim>\<open>WeekOfYear\<close> are the ISO year and the ISO week of the
  timestamp the conversion gave the row, which for a calendar date are the week-numbering
  year and the week of ISO 8601. That record is the only one with this key, and it counts
  and averages exactly the rows of the converted table that carry this key. The date
  2023-01-01 has ISO year 2022 and ISO week 52.
\<close>

theorem weekly_bucket_is_iso_week:
  assumes "calculate_all_averages L s = Inr s'" and "i < length (daily_scores (dataframes s))"
  shows "(\<exists>ds a. column_to_datetime L (map Date (daily_scores (dataframes s))) = Some ds \<and>
            a \<in> set (weekly_averages (dataframes s')) \<and>
            avg_DefinitionID a = log_DefinitionID (daily_scores (dataframes s) ! i) \<and>
            avg_Year a = iso_year (ds ! i) \<and> avg_Period a = iso_week (ds ! i) \<and>
            (valid_date (ds ! i) \<longrightarrow> iso8601_week (ds ! i) (avg_Year a) (avg_Period a)) \<and>
            daily_scores (dataframes s') ! i
              \<in> set (rows_of_week (avg_DefinitionID a) (avg_Year a) (avg_Period a)
                       (daily_scores (dataframes s'))) \<and>
            DataPointsCount a =
              int (length (rows_of_week (avg_DefinitionID a) (avg_Year a) (avg_Period a)
                             (daily_scores (dataframes s')))) \<and>
            AverageScore a =
              mean (map Score (rows_of_week (avg_DefinitionID a) (avg_Year a) (avg_Period a)
                                 (daily_scores (dataframes s')))) \<and>
            (\<forall>a'\<in>set (weekly_averages (dataframes s')).
               avg_DefinitionID a' = avg_DefinitionID a \<and> avg_Year a' = avg_Year a \<and>
               avg_Period a' = avg_Period a \<longrightarrow> a' = a)) \<and>
         iso_year \<lparr>year = 2023, month = 1, day = 1\<rparr> = 2022 \<and>
         iso_week \<lparr>year = 2023, month = 1, day = 1\<rparr> = 52"
proof -
  let ?df = "daily_scores (dataframes s)"
  have ne: "?df \<noteq> []" using assms(2) by auto
  from assms(1) ne obtain ds where col: "column_to_datetime L (map Date ?df) = Some ds"
    and len: "length ds = length ?df"
    by (rule calculate_all_averages_returns)
  let ?df' = "map2 (\<lambda>r d. converted d r) ?df ds"
  let ?g = "groupby_agg weekly_key ?df'"
  note run = calculate_all_averages_runs [OF ne col]
  have tab: "weekly_averages (dataframes s') = average_table ?g"
    using run assms(1) by auto
  have df': "daily_scores (dataframes s') = ?df'"
    using run assms(1) by auto
  let ?r = "?df ! i" and ?d = "ds ! i"
  have row: "?df' ! i = converted ?d ?r" using assms(2) len by simp
  have mem: "converted ?d ?r \<in> set ?df'"
    using assms(2) len row by (metis length_map length_zip min.idem nth_mem)
  let ?k = "(log_DefinitionID ?r, iso_year ?d, iso_week ?d)"
  have key: "weekly_key (converted ?d ?r) = Some ?k" by (simp add: weekly_key_eq)
  let ?rows = "rows_of_week (log_DefinitionID ?r) (iso_year ?d) (iso_week ?d) ?df'"
  have "(?k, mean (map Score ?rows), length ?rows) \<in> set ?g"
    using groupby_agg_member [of "converted ?d ?r" ?df' weekly_key ?k] mem key
    by (simp add: rows_of_week_filter)
  from average_table_member [OF this] obtain a where a: "a \<in> set (average_table ?g)"
    "avg_DefinitionID a = log_DefinitionID ?r" "avg_Year a = iso_year ?d"
    "avg_Period a = iso_week ?d"
    "AverageScore a = mean (map Score ?rows)" "DataPointsCount a = int (length ?rows)"
    by blast
  have iso: "valid_date ?d \<longrightarrow> iso8601_week ?d (avg_Year a) (avg_Period a)"
    unfolding a(3,4) by (blast intro: isocalendar_iso8601)
  have a1: "a \<in> set (weekly_averages (dataframes s'))"
    unfolding tab by (rule a(1))
  have inrows: "daily_scores (dataframes s') ! i
      \<in> set (rows_of_week (avg_DefinitionID a) (avg_Year a) (avg_Period a)
               (daily_scores (dataframes s')))"
    unfolding df' a(2,3,4) row using mem by (simp add: rows_of_week_def)
  have cnt: "DataPointsCount a =
      int (length (rows_of_week (avg_DefinitionID a) (avg_Year a) (avg_Period a)
                     (daily_scores (dataframes s'))))"
    unfolding df' a(2,3,4) by (rule a(6))
  have avg: "AverageScore a =
      mean (map Score (rows_of_week (avg_DefinitionID a) (avg_Year a) (avg_Period a)
                         (daily_scores (dataframes s'))))"
    unfolding df' a(2,3,4) by (rule a(5))
  have uniq: "\<forall>a'\<in>set (weekly_averages (dataframes s')).
               avg_DefinitionID a' = avg_DefinitionID a \<and> avg_Year a' = avg_Year a \<and>
               avg_Period a' = avg_Period a \<longrightarrow> a' = a"
    unfolding tab
    using average_table_key_unique [OF groupby_agg_keys_distinct a(1)] by blast
  have ex: "iso_year \<lparr>year = 2023, month = 1, day = 1\<rparr> = 2022"
    "iso_week \<lparr>year = 2023, month = 1, day = 1\<rparr> = 52"
    by code_simp+
  have main: "\<exists>ds a. column_to_datetime L (map Date (daily_scores (dataframes s))) = Some ds \<and>
            a \<in> set (weekly_averages (dataframes s')) \<and>
            avg_DefinitionID a = log_DefinitionID (daily_scores (dataframes s) ! i) \<and>
            avg_Year a = iso_year (ds ! i) \<and> avg_Period a = iso_week (ds ! i) \<and>
            (valid_date (ds ! i) \<longrightarrow> iso8601_week (ds ! i) (avg_Year a) (avg_Period a)) \<and>
            daily_scores (dataframes s') ! i
              \<in> set (rows_of_week (avg_DefinitionID a) (avg_Year a) (avg_Period a)
                       (daily_scores (dataframes s'))) \<and>
            DataPointsCount a =
              int (length (rows_of_week (avg_DefinitionID a) (avg_Year a) (avg_Period a)
                             (daily_scores (dataframes s')))) \<and>
            AverageScore a =
              mean (map Score (rows_of_week (avg_DefinitionID a) (avg_Year a) (avg_Period a)
                                 (daily_scores (dataframes s')))) \<and>
            (\<forall>a'\<in>set (weekly_averages (dataframes s')).
               avg_DefinitionID a' = avg_DefinitionID a \<and> avg_Year a' = avg_Year a \<and>
               avg_Period a' = avg_Period a \<longrightarrow> a' = a)"
    by (rule exI [of _ ds], rule exI [of _ a])
       (rule conjI [OF col conjI [OF a1 conjI [OF a(2) conjI [OF a(3) conjI [OF a(4)
          conjI [OF iso conjI [OF inrows conjI [OF cnt conjI [OF avg uniq]]]]]]]]])
  show ?thesis
    by (rule conjI [OF main conjI [OF ex(1) ex(2)]])
qed

theorem weekly_bucket_is_iso_week_witness:
  "\<exists>s'. calculate_all_averages example_library (with_scores [score_on 1 ''2023-01-01'' 5]) = Inr s' \<and>
        (0::nat) < length (daily_scores (dataframes (with_scores [score_on 1 ''2023-01-01'' 5]))) \<and>
        column_to_datetime example_library
          (map Date (daily_scores (dataframes (with_scores [score_on 1 ''2023-01-01'' 5]))))
          = Some [\<lparr>year = 2023, month = 1, day = 1\<rparr>] \<and>
        valid_date \<lparr>year = 2023, month = 1, day = 1\<rparr> \<and>
        (\<exists>a\<in>set (weekly_averages (dataframes s')).
           avg_DefinitionID a = 1 \<and> avg_Year a = 2022 \<and> avg_Period a = 52 \<and>
           iso8601_week \<lparr>year = 2023, month = 1, day = 1\<rparr> 2022 52)"
proof -
  let ?r = "score_on 1 ''2023-01-01'' 5"
  let ?s = "with_scores [?r]"
  let ?d = "\<lparr>year = 2023, month = 1, day = 1\<rparr>"
  have "case calculate_all_averages example_library ?s of Inl e \<Rightarrow> False | Inr s' \<Rightarrow> True"
    by code_simp
  then obtain s' where run: "calculate_all_averages example_library ?s = Inr s'"
    by (cases "calculate_all_averages example_library ?s") simp_all
  have df: "daily_scores (dataframes ?s) = [?r]" by (simp add: with_scores_def)
  have pos: "(0::nat) < length (daily_scores (dataframes ?s))" by (simp add: df)
  have col: "column_to_datetime example_library (map Date (daily_scores (dataframes ?s))) = Some [?d]"
    unfolding df by code_simp
  have valid: "valid_date ?d" by code_simp
  have def1: "log_DefinitionID ?r = 1" by (simp add: score_on_def)
  from weekly_bucket_is_iso_week [OF run pos]
  obtain ds a where ds: "column_to_datetime example_library (map Date (daily_scores (dataframes ?s))) = Some ds"
    and a: "a \<in> set (weekly_averages (dataframes s'))"
      "avg_DefinitionID a = log_DefinitionID (daily_scores (dataframes ?s) ! 0)"
      "avg_Year a = iso_year (ds ! 0)" "avg_Period a = iso_week (ds ! 0)"
      "valid_date (ds ! 0) \<longrightarrow> iso8601_week (ds ! 0) (avg_Year a) (avg_Period a)"
    and y: "iso_year ?d = 2022" and w: "iso_week ?d = 52"
    by blast
  have "ds = [?d]" using ds col by simp
  then have dd: "ds ! 0 = ?d" by simp
  have 1: "avg_DefinitionID a = 1" using a(2) def1 by (simp add: df)
  have 2: "avg_Year a = 2022" using a(3) y by (simp add: dd)
  have 3: "avg_Period a = 52" using a(4) w by (simp add: dd)
  have 4: "iso8601_week ?d 2022 52" using a(5) valid 2 3 by (simp add: dd)
  have "\<exists>a\<in>set (weekly_averages (dataframes s')).
           avg_DefinitionID a = 1 \<and> avg_Year a = 2022 \<and> avg_Period a = 52 \<and>
           iso8601_week ?d 2022 52"
    by (rule bexI [OF _ a(1)]) (rule conjI [OF 1 conjI [OF 2 conjI [OF 3 4]]])
  with run pos col valid show ?thesis by (intro exI [of _ s'] conjI)
qed

end
